theory Spec2Isabelle
  imports Main "HOL-Library.Sublist" "HOL-Library.Multiset"
begin

section \<open>Python values as the generators see them\<close>

text \<open>
  The generators of \<^verbatim>\<open>src/lib/functions.py\<close> and \<^verbatim>\<open>src/lib/functions_2.py\<close> work on
  spreadsheet cells and on JSON values. A cell is a Python object: \<^verbatim>\<open>None\<close>, a \<^verbatim>\<open>bool\<close>,
  an \<^verbatim>\<open>int\<close>, a \<^verbatim>\<open>float\<close>, a \<^verbatim>\<open>str\<close> or a timestamp; JSON adds lists and dicts.

  A float is either \<^verbatim>\<open>nan\<close> (the marker pandas gives an empty cell) or a finite number,
  carried as the decimal number \<open>m * 10 ^ e\<close> that its \<^verbatim>\<open>repr\<close> denotes. Python's
  \<^verbatim>\<open>repr\<close> is injective on floats and no integer lies between a float and the decimal of
  its \<^verbatim>\<open>repr\<close>, so equality, \<^verbatim>\<open>int()\<close> and \<^verbatim>\<open>str()\<close> are those of the float.
  Infinities and the negative zero do not occur in spreadsheet cells and are left out.
  A timestamp is carried by its \<^verbatim>\<open>str()\<close> form. Characters are ASCII.
\<close>

datatype pyfloat = FNan | FDec int int

datatype pyval =
    PNone
  | PBool bool
  | PInt int
  | PFloat pyfloat
  | PStr string
  | PTime string
  | PList "pyval list"
  | PDict "(string \<times> pyval) list"

datatype py_error = ValueError | TypeError | KeyError | AttributeError

type_synonym pydict = "(string \<times> pyval) list"

subsection \<open>Decimal printing: \<^verbatim>\<open>str(int)\<close> and \<^verbatim>\<open>repr(float)\<close>\<close>

definition digit_char :: "nat \<Rightarrow> char" where
  "digit_char d = char_of (48 + d)"

fun nat_digits :: "nat \<Rightarrow> string" where
  "nat_digits n = (if n < 10 then [digit_char n] else nat_digits (n div 10) @ [digit_char (n mod 10)])"

declare nat_digits.simps [simp del]

definition int_str :: "int \<Rightarrow> string" where
  "int_str i = (if i < 0 then CHR ''-'' # nat_digits (nat (- i)) else nat_digits (nat i))"

definition float_is_whole :: "int \<Rightarrow> int \<Rightarrow> bool" where
  "float_is_whole m e = (0 \<le> e \<or> m mod 10 ^ nat (- e) = 0)"

definition float_trunc :: "int \<Rightarrow> int \<Rightarrow> int" where
  "float_trunc m e = (if 0 \<le> e then m * 10 ^ nat e else sgn m * (\<bar>m\<bar> div 10 ^ nat (- e)))"

definition float_digits :: "int \<Rightarrow> int \<Rightarrow> string \<times> int" where
  "float_digits m e =
     (if m = 0 then (''0'', 1)
      else (let d0 = nat_digits (nat \<bar>m\<bar>)
            in (rev (dropWhile (\<lambda>c. c = CHR ''0'') (rev d0)), int (length d0) + e)))"

definition exp_digits :: "int \<Rightarrow> string" where
  "exp_digits x =
     (if x < 0 then ''-'' else ''+'') @
     (if \<bar>x\<bar> < 10 then ''0'' else '''') @ nat_digits (nat \<bar>x\<bar>)"

definition float_repr :: "int \<Rightarrow> int \<Rightarrow> string" where
  "float_repr m e =
     (case float_digits m e of (ds, decpt) \<Rightarrow>
        (if m < 0 then ''-'' else '''') @
        (if decpt \<le> - 4 \<or> 16 < decpt then
           take 1 ds @ (if 1 < length ds then CHR ''.'' # drop 1 ds else '''') @
           ''e'' @ exp_digits (decpt - 1)
         else if decpt \<le> 0 then ''0.'' @ replicate (nat (- decpt)) (CHR ''0'') @ ds
         else if int (length ds) \<le> decpt then
           ds @ replicate (nat (decpt - int (length ds))) (CHR ''0'') @ ''.0''
         else take (nat decpt) ds @ CHR ''.'' # drop (nat decpt) ds))"

fun float_str :: "pyfloat \<Rightarrow> string" where
  "float_str FNan = ''nan''"
| "float_str (FDec m e) = float_repr m e"

subsection \<open>\<^verbatim>\<open>repr\<close> and \<^verbatim>\<open>str\<close>\<close>

definition hex_digit :: "nat \<Rightarrow> char" where
  "hex_digit d = (if d < 10 then char_of (48 + d) else char_of (87 + d))"

definition repr_char :: "char \<Rightarrow> char \<Rightarrow> string" where
  "repr_char q c =
     (if c = q \<or> c = CHR 0x5C then [CHR 0x5C, c]
      else if c = CHR 0x09 then [CHR 0x5C, CHR ''t'']
      else if c = CHR 0x0A then [CHR 0x5C, CHR ''n'']
      else if c = CHR 0x0D then [CHR 0x5C, CHR ''r'']
      else if (of_char c :: nat) < 32 \<or> (of_char c :: nat) = 127 then
        [CHR 0x5C, CHR ''x'', hex_digit ((of_char c :: nat) div 16), hex_digit ((of_char c :: nat) mod 16)]
      else [c])"

definition str_repr :: "string \<Rightarrow> string" where
  "str_repr s =
     (let q = (if CHR 0x27 \<in> set s \<and> CHR 0x22 \<notin> set s then CHR 0x22 else CHR 0x27)
      in q # concat (map (repr_char q) s) @ [q])"

fun comma_join :: "string list \<Rightarrow> string" where
  "comma_join [] = []"
| "comma_join [s] = s"
| "comma_join (s # t # ss) = s @ '', '' @ comma_join (t # ss)"

primrec py_repr :: "pyval \<Rightarrow> string" where
  "py_repr PNone = ''None''"
| "py_repr (PBool b) = (if b then ''True'' else ''False'')"
| "py_repr (PInt i) = int_str i"
| "py_repr (PFloat f) = float_str f"
| "py_repr (PStr s) = str_repr s"
| "py_repr (PTime s) = ''Timestamp('' @ str_repr s @ '')''"
| "py_repr (PList xs) = ''['' @ comma_join (map py_repr xs) @ '']''"
| "py_repr (PDict kvs) =
     ''{'' @ comma_join (map (\<lambda>(k, r). str_repr k @ '': '' @ r) (map (map_prod id py_repr) kvs)) @ ''}''"

definition py_str :: "pyval \<Rightarrow> string" where
  "py_str v = (case v of PStr s \<Rightarrow> s | PTime s \<Rightarrow> s | _ \<Rightarrow> py_repr v)"

subsection \<open>String methods: \<^verbatim>\<open>lower\<close>, \<^verbatim>\<open>strip\<close>, \<^verbatim>\<open>replace\<close>, \<^verbatim>\<open>in\<close>\<close>

definition lower_char :: "char \<Rightarrow> char" where
  "lower_char c =
     (let n = (of_char c :: nat) in if 65 \<le> n \<and> n \<le> 90 then char_of (n + 32) else c)"

definition py_lower :: "string \<Rightarrow> string" where
  "py_lower s = map lower_char s"

definition is_space :: "char \<Rightarrow> bool" where
  "is_space c =
     (let n = (of_char c :: nat) in (9 \<le> n \<and> n \<le> 13) \<or> (28 \<le> n \<and> n \<le> 32))"

definition py_strip :: "string \<Rightarrow> string" where
  "py_strip s = rev (dropWhile is_space (rev (dropWhile is_space s)))"

text \<open>
  \<^verbatim>\<open>s.replace(old, new)\<close>: the occurrences of \<open>old\<close> are found from the left and do
  not overlap. An empty \<open>old\<close> matches before every character and at the end.
\<close>

function py_replace :: "string \<Rightarrow> string \<Rightarrow> string \<Rightarrow> string" where
  "py_replace [] old new = (if old = [] then new else [])"
| "py_replace (c # cs) old new =
     (if old = [] then new @ c # py_replace cs old new
      else if prefix old (c # cs) then new @ py_replace (drop (length old) (c # cs)) old new
      else c # py_replace cs old new)"
  by pat_completeness auto
termination
  by (relation "measure (\<lambda>(s, old, new). length s)") auto

text \<open>\<^verbatim>\<open>sub in s\<close> on strings.\<close>

fun py_contains :: "string \<Rightarrow> string \<Rightarrow> bool" where
  "py_contains sub [] = (sub = [])"
| "py_contains sub (c # cs) = (prefix sub (c # cs) \<or> py_contains sub cs)"

subsection \<open>Equality, missing values, \<^verbatim>\<open>int()\<close>\<close>

text \<open>
  \<^verbatim>\<open>a == b\<close> on cells: booleans, integers and whole floats compare by value,
  \<^verbatim>\<open>nan\<close> equals nothing (itself included), everything else compares within its type.
\<close>

fun py_num :: "pyval \<Rightarrow> int option" where
  "py_num (PBool b) = Some (if b then 1 else 0)"
| "py_num (PInt i) = Some i"
| "py_num (PFloat (FDec m e)) = (if float_is_whole m e then Some (float_trunc m e) else None)"
| "py_num _ = None"

fun float_same :: "pyfloat \<Rightarrow> pyfloat \<Rightarrow> bool" where
  "float_same (FDec m e) (FDec n f) =
     (let lo = min e f in m * 10 ^ nat (e - lo) = n * 10 ^ nat (f - lo))"
| "float_same _ _ = False"

definition py_eq :: "pyval \<Rightarrow> pyval \<Rightarrow> bool" where
  "py_eq a b =
     (case (a, b) of
        (PFloat x, PFloat y) \<Rightarrow> float_same x y
      | _ \<Rightarrow> (case (py_num a, py_num b) of
                (Some m, Some n) \<Rightarrow> m = n
              | (None, None) \<Rightarrow> a = b
              | _ \<Rightarrow> False))"

text \<open>\<^verbatim>\<open>pd.isna\<close> and \<^verbatim>\<open>pd.notna\<close> on a scalar.\<close>

definition pd_isna :: "pyval \<Rightarrow> bool" where
  "pd_isna v = (v = PNone \<or> v = PFloat FNan)"

definition pd_notna :: "pyval \<Rightarrow> bool" where
  "pd_notna v = (\<not> pd_isna v)"

text \<open>\<^verbatim>\<open>isinstance(v, (int, float))\<close>: \<^verbatim>\<open>bool\<close> is a subclass of \<^verbatim>\<open>int\<close>.\<close>

fun is_int_float :: "pyval \<Rightarrow> bool" where
  "is_int_float (PBool b) = True"
| "is_int_float (PInt i) = True"
| "is_int_float (PFloat f) = True"
| "is_int_float _ = False"

definition is_digit :: "char \<Rightarrow> bool" where
  "is_digit c = (let n = (of_char c :: nat) in 48 \<le> n \<and> n \<le> 57)"

fun parse_digits :: "string \<Rightarrow> nat \<Rightarrow> bool \<Rightarrow> nat option" where
  "parse_digits [] acc prev = (if prev then Some acc else None)"
| "parse_digits (c # cs) acc prev =
     (if is_digit c then parse_digits cs (acc * 10 + ((of_char c :: nat) - 48)) True
      else if c = CHR ''_'' \<and> prev \<and> cs \<noteq> [] then parse_digits cs acc False
      else None)"

definition parse_int :: "string \<Rightarrow> int option" where
  "parse_int s =
     (case py_strip s of
        [] \<Rightarrow> None
      | c # cs \<Rightarrow>
          (if c = CHR ''-'' then map_option (\<lambda>n. - int n) (parse_digits cs 0 False)
           else if c = CHR ''+'' then map_option int (parse_digits cs 0 False)
           else map_option int (parse_digits (c # cs) 0 False)))"

fun py_int :: "pyval \<Rightarrow> py_error + int" where
  "py_int (PBool b) = Inr (if b then 1 else 0)"
| "py_int (PInt i) = Inr i"
| "py_int (PFloat FNan) = Inl ValueError"
| "py_int (PFloat (FDec m e)) = Inr (float_trunc m e)"
| "py_int (PStr s) = (case parse_int s of None \<Rightarrow> Inl ValueError | Some i \<Rightarrow> Inr i)"
| "py_int _ = Inl TypeError"

text \<open>\<^verbatim>\<open>d.get(k)\<close>: the value, or \<^verbatim>\<open>None\<close> when the key is absent.\<close>

definition dict_get :: "pydict \<Rightarrow> string \<Rightarrow> pyval" where
  "dict_get d k = (case map_of d k of None \<Rightarrow> PNone | Some v \<Rightarrow> v)"

text \<open>\<^verbatim>\<open>d[k] = v\<close> on an insertion-ordered dict: a present key keeps its place.\<close>

fun dict_set :: "(string \<times> 'v) list \<Rightarrow> string \<Rightarrow> 'v \<Rightarrow> (string \<times> 'v) list" where
  "dict_set [] k v = [(k, v)]"
| "dict_set ((k', v') # d) k v = (if k' = k then (k, v) # d else (k', v') # dict_set d k v)"

section \<open>\<^verbatim>\<open>CreateIndustries\<close>: loading the industries\<close>

text \<open>
  A sheet is the list of its rows in spreadsheet order; a row is the dict of
  \<^verbatim>\<open>to_dict()\<close>, its keys the column headers. The keys \<^verbatim>\<open>accept_cargo_list\<close>,
  \<^verbatim>\<open>produce_cargo_list\<close> and \<^verbatim>\<open>demand_customers\<close>, which the function adds to the
  row's dict, are fields of their own here: no column of the industries sheet bears
  one of these three names.
\<close>

record accept_item =
  accept_cargo :: pyval
  accept_cargo_type :: pyval
  stock_num :: "int option"
  cons_num :: "int option"

record produce_item =
  produce_cargo :: pyval
  produce_cargo_type :: pyval
  prod_num :: "int option"
  demand_num :: "int option"
  bias_num :: "int option"

record demand_item =
  dc_produce_cargo :: pyval
  accepted_by :: "string list"
  dc_demand_num :: int

record industry =
  row :: pydict
  accept_cargo_list :: "accept_item list option"
  produce_cargo_list :: "produce_item list option"
  demand_customers :: "demand_item list option"

type_synonym industry_data = "(string \<times> industry) list"

type_synonym sheets = "(string \<times> pydict list) list"

text \<open>
  \<^verbatim>\<open>int(x) if pd.notna(x) and isinstance(y, (int, float)) else None\<close>, for the cell
  \<open>x\<close> that is converted and the cell \<open>y\<close> whose type is tested.
\<close>

definition int_or_none :: "pyval \<Rightarrow> pyval \<Rightarrow> py_error + int option" where
  "int_or_none x y =
     (if pd_notna x \<and> is_int_float y
      then (case py_int x of Inl err \<Rightarrow> Inl err | Inr i \<Rightarrow> Inr (Some i))
      else Inr None)"

definition make_accept_item :: "pydict \<Rightarrow> py_error + accept_item" where
  "make_accept_item row_data =
     (case int_or_none (dict_get row_data ''stock_num'') (dict_get row_data ''stock_num'') of
        Inl err \<Rightarrow> Inl err
      | Inr s \<Rightarrow>
     (case int_or_none (dict_get row_data ''cons_num'') (dict_get row_data ''cons_num'') of
        Inl err \<Rightarrow> Inl err
      | Inr c \<Rightarrow>
          Inr \<lparr>accept_cargo = dict_get row_data ''accept_cargo'',
               accept_cargo_type = dict_get row_data ''accept_cargo_type'',
               stock_num = s, cons_num = c\<rparr>))"

definition make_produce_item :: "pydict \<Rightarrow> py_error + produce_item" where
  "make_produce_item row_data =
     (case int_or_none (dict_get row_data ''prod_num'') (dict_get row_data ''prod_num'') of
        Inl err \<Rightarrow> Inl err
      | Inr p \<Rightarrow>
     (case int_or_none (dict_get row_data ''demand_num'') (dict_get row_data ''prod_num'') of
        Inl err \<Rightarrow> Inl err
      | Inr d \<Rightarrow>
     (case int_or_none (dict_get row_data ''bias_num'') (dict_get row_data ''bias_num'') of
        Inl err \<Rightarrow> Inl err
      | Inr b \<Rightarrow>
          Inr \<lparr>produce_cargo = dict_get row_data ''produce_cargo'',
               produce_cargo_type = dict_get row_data ''produce_cargo_type'',
               prod_num = p, demand_num = d, bias_num = b\<rparr>)))"

text \<open>\<^verbatim>\<open>k in row_data and pd.notna(row_data[k])\<close>\<close>

definition has_value :: "pydict \<Rightarrow> string \<Rightarrow> bool" where
  "has_value row_data k = (case map_of row_data k of None \<Rightarrow> False | Some v \<Rightarrow> pd_notna v)"

fun collect_cargo ::
  "pydict list \<Rightarrow> accept_item list \<Rightarrow> produce_item list \<Rightarrow>
   py_error + (accept_item list \<times> produce_item list)" where
  "collect_cargo [] accept_list produce_list = Inr (accept_list, produce_list)"
| "collect_cargo (row_data # rows) accept_list produce_list =
     (case (if has_value row_data ''accept_cargo''
            then (case make_accept_item row_data of
                    Inl err \<Rightarrow> Inl err | Inr a \<Rightarrow> Inr (accept_list @ [a]))
            else Inr accept_list) of
        Inl err \<Rightarrow> Inl err
      | Inr accept_list' \<Rightarrow>
     (case (if has_value row_data ''produce_cargo''
            then (case make_produce_item row_data of
                    Inl err \<Rightarrow> Inl err | Inr p \<Rightarrow> Inr (produce_list @ [p]))
            else Inr produce_list) of
        Inl err \<Rightarrow> Inl err
      | Inr produce_list' \<Rightarrow> collect_cargo rows accept_list' produce_list'))"

text \<open>\<^verbatim>\<open>'include' in row and str(row['include']).lower() == 'true'\<close>\<close>

definition row_included :: "pydict \<Rightarrow> bool" where
  "row_included r =
     (case map_of r ''include'' of None \<Rightarrow> False | Some v \<Rightarrow> py_lower (py_str v) = ''true'')"

text \<open>
  The first loop of \<^verbatim>\<open>CreateIndustries\<close>. A missing name column raises
  \<^verbatim>\<open>KeyError\<close>, a name that is no string raises \<^verbatim>\<open>TypeError\<close> in
  \<^verbatim>\<open>os.path.join\<close>, a cell that \<^verbatim>\<open>int()\<close> refuses raises too: the function's outer
  handler then ends the whole operation.
\<close>

fun load_industries :: "sheets \<Rightarrow> pydict list \<Rightarrow> industry_data \<Rightarrow> py_error + industry_data" where
  "load_industries industry_sheets [] st = Inr st"
| "load_industries industry_sheets (industry_row # rows) st =
     (if row_included industry_row then
        (case map_of industry_row ''industry_item_name'' of
           None \<Rightarrow> Inl KeyError
         | Some (PStr industry_name) \<Rightarrow>
             (case map_of industry_sheets industry_name of
                None \<Rightarrow>
                  load_industries industry_sheets rows
                    (dict_set st industry_name
                       \<lparr>row = industry_row, accept_cargo_list = None,
                        produce_cargo_list = None, demand_customers = None\<rparr>)
              | Some df_industry_data \<Rightarrow>
                  (case collect_cargo df_industry_data [] [] of
                     Inl err \<Rightarrow> Inl err
                   | Inr (accept_list, produce_list) \<Rightarrow>
                       load_industries industry_sheets rows
                         (dict_set st industry_name
                            \<lparr>row = industry_row, accept_cargo_list = Some accept_list,
                             produce_cargo_list = Some produce_list, demand_customers = None\<rparr>)))
         | Some _ \<Rightarrow> Inl TypeError)
      else load_industries industry_sheets rows st)"

section \<open>\<^verbatim>\<open>CreateIndustries\<close>: the demand customers\<close>

definition get_accept_list :: "industry \<Rightarrow> accept_item list" where
  "get_accept_list d = (case accept_cargo_list d of None \<Rightarrow> [] | Some l \<Rightarrow> l)"

definition get_produce_list :: "industry \<Rightarrow> produce_item list" where
  "get_produce_list d = (case produce_cargo_list d of None \<Rightarrow> [] | Some l \<Rightarrow> l)"

definition get_demand_customers :: "industry \<Rightarrow> demand_item list" where
  "get_demand_customers d = (case demand_customers d of None \<Rightarrow> [] | Some l \<Rightarrow> l)"

definition industry_pack :: "industry \<Rightarrow> pyval" where
  "industry_pack d = dict_get (row d) ''industry_pack''"

text \<open>
  The innermost loop: the other industry's accepted cargos are scanned up to the
  first one that equals the target; there the packs are compared and the scan ends.
\<close>

fun scan_accept :: "accept_item list \<Rightarrow> pyval \<Rightarrow> industry \<Rightarrow> industry \<Rightarrow> string \<Rightarrow> string list" where
  "scan_accept [] target_cargo data other_data other_industry_name = []"
| "scan_accept (other_item # rest) target_cargo data other_data other_industry_name =
     (if py_eq (accept_cargo other_item) target_cargo
      then (if py_eq (industry_pack data) (industry_pack other_data)
            then [other_industry_name] else [])
      else scan_accept rest target_cargo data other_data other_industry_name)"

fun scan_industries ::
  "industry_data \<Rightarrow> string \<Rightarrow> industry \<Rightarrow> pyval \<Rightarrow> string list \<Rightarrow> string list" where
  "scan_industries [] industry_name data target_cargo accepting_industries = accepting_industries"
| "scan_industries ((other_industry_name, other_data) # rest) industry_name data target_cargo
       accepting_industries =
     scan_industries rest industry_name data target_cargo
       (if other_industry_name \<noteq> industry_name
        then accepting_industries @
             scan_accept (get_accept_list other_data) target_cargo data other_data other_industry_name
        else accepting_industries)"

fun demand_loop ::
  "industry_data \<Rightarrow> string \<Rightarrow> industry \<Rightarrow> produce_item list \<Rightarrow> demand_item list \<Rightarrow>
   demand_item list" where
  "demand_loop st industry_name data [] dcs = dcs"
| "demand_loop st industry_name data (item # items) dcs =
     demand_loop st industry_name data items
       (case demand_num item of
          None \<Rightarrow> dcs
        | Some n \<Rightarrow>
            dcs @ [\<lparr>dc_produce_cargo = produce_cargo item,
                    accepted_by = scan_industries st industry_name data (produce_cargo item) [],
                    dc_demand_num = n\<rparr>])"

text \<open>
  One turn of the second loop, on the dict as it stands: the industry's entry gets its
  \<^verbatim>\<open>demand_customers\<close>. The loop runs over the names of the dict in insertion order.
\<close>

definition resolve_step :: "industry_data \<Rightarrow> string \<Rightarrow> industry_data" where
  "resolve_step st industry_name =
     (case map_of st industry_name of
        None \<Rightarrow> st
      | Some data \<Rightarrow>
          dict_set st industry_name
            (data\<lparr>demand_customers :=
                    Some (demand_loop st industry_name data (get_produce_list data) [])\<rparr>))"

definition resolve :: "industry_data \<Rightarrow> industry_data" where
  "resolve industry_data = foldl resolve_step industry_data (map fst industry_data)"

text \<open>
  The resolver as the specification words it: an entry for each produced cargo with a
  quantity, listing the other industries of the same group that accept the cargo.
\<close>

definition accepts_label :: "industry \<Rightarrow> pyval \<Rightarrow> bool" where
  "accepts_label J label = list_ex (\<lambda>a. py_eq (accept_cargo a) label) (get_accept_list J)"

definition spec_accepted_by :: "industry_data \<Rightarrow> string \<Rightarrow> industry \<Rightarrow> pyval \<Rightarrow> string list" where
  "spec_accepted_by industries name I label =
     map fst (filter (\<lambda>(other, J). other \<noteq> name \<and> accepts_label J label \<and>
                                      py_eq (industry_pack I) (industry_pack J)) industries)"

definition spec_entries :: "industry_data \<Rightarrow> string \<Rightarrow> industry \<Rightarrow> produce_item list \<Rightarrow> demand_item list" where
  "spec_entries industries name I produced =
     concat (map (\<lambda>p. case demand_num p of
                         None \<Rightarrow> []
                       | Some q \<Rightarrow> [\<lparr>dc_produce_cargo = produce_cargo p,
                                     accepted_by = spec_accepted_by industries name I (produce_cargo p),
                                     dc_demand_num = q\<rparr>]) produced)"

definition spec_resolve :: "industry_data \<Rightarrow> industry_data" where
  "spec_resolve industries =
     map (\<lambda>(name, I). (name, I\<lparr>demand_customers :=
                                  Some (spec_entries industries name I (get_produce_list I))\<rparr>))
       industries"

section \<open>Placeholder substitution\<close>

text \<open>
  Every generator runs the same loop over the items of a record, in the dict's order:
  \<^verbatim>\<open>content = content.replace(f"_{key}_", text)\<close>. The generators differ in the text
  they give a value and in the values they pass over; \<open>fmt\<close> returns \<open>None\<close> for a
  value the loop's \<^verbatim>\<open>isinstance\<close> test leaves out.
\<close>

definition placeholder :: "string \<Rightarrow> string" where
  "placeholder key = ''_'' @ key @ ''_''"

definition substitute :: "(pyval \<Rightarrow> string option) \<Rightarrow> string \<Rightarrow> pydict \<Rightarrow> string" where
  "substitute fmt template_content record =
     foldl (\<lambda>content (key, v). case fmt v of
                                   None \<Rightarrow> content
                                 | Some text \<Rightarrow> py_replace content (placeholder key) text)
       template_content record"

text \<open>
  \<^verbatim>\<open>format_value_for_template\<close>, nested in \<^verbatim>\<open>CreateCargoPNMLs\<close>. A \<^verbatim>\<open>bool\<close> is an
  \<^verbatim>\<open>int\<close> for \<^verbatim>\<open>isinstance\<close> and equals its \<^verbatim>\<open>int()\<close>.
\<close>

fun format_value_for_template :: "pyval \<Rightarrow> string" where
  "format_value_for_template (PBool b) = int_str (if b then 1 else 0)"
| "format_value_for_template (PInt i) = int_str i"
| "format_value_for_template (PFloat FNan) = []"
| "format_value_for_template (PFloat (FDec m e)) =
     (if float_is_whole m e then int_str (float_trunc m e) else py_str (PFloat (FDec m e)))"
| "format_value_for_template v = py_str v"

text \<open>\<^verbatim>\<open>isinstance(value, (int, float, str, bool))\<close>\<close>

fun is_scalar :: "pyval \<Rightarrow> bool" where
  "is_scalar (PBool b) = True"
| "is_scalar (PInt i) = True"
| "is_scalar (PFloat f) = True"
| "is_scalar (PStr s) = True"
| "is_scalar _ = False"

text \<open>\<^verbatim>\<open>isinstance(value, (int, float, str, bool, list, dict))\<close>\<close>

fun is_scalar_list_dict :: "pyval \<Rightarrow> bool" where
  "is_scalar_list_dict (PList xs) = True"
| "is_scalar_list_dict (PDict kvs) = True"
| "is_scalar_list_dict v = is_scalar v"

definition fmt_formatted :: "pyval \<Rightarrow> string option" where
  "fmt_formatted v = Some (format_value_for_template v)"


definition fmt_scalar :: "pyval \<Rightarrow> string option" where
  "fmt_scalar v = (if is_scalar v then Some (py_str v) else None)"

definition fmt_scalar_list_dict :: "pyval \<Rightarrow> string option" where
  "fmt_scalar_list_dict v = (if is_scalar_list_dict v then Some (py_str v) else None)"

section \<open>The cargo generators of \<^verbatim>\<open>functions.py\<close>\<close>

text \<open>
  Files are written where the path says and the writes succeed; a generator's result is
  the list of its per-record writes, in order, and the text of its combined file.
\<close>

definition newline :: string where
  "newline = [CHR 0x0A]"

definition path_join :: "string \<Rightarrow> string \<Rightarrow> string" where
  "path_join a b =
     (if prefix ''/'' b then b
      else if a = [] \<or> suffix ''/'' a then a @ b
      else a @ ''/'' @ b)"




definition combine :: "(string \<times> string) list \<Rightarrow> string" where
  "combine written = concat (map (\<lambda>(path, content). content @ newline @ newline) written)"



section \<open>\<^verbatim>\<open>CreateIndustries\<close>: the industry's dict\<close>

text \<open>
  The dict of an industry as the later loops see it, in the order of its keys: the
  row's cells, then the derived lists that were added. The third loop dumps it as
  JSON and \<^verbatim>\<open>CreateIndustryLNGs\<close> loads it back; the fourth loop iterates its items.
\<close>

definition opt_json :: "int option \<Rightarrow> pyval" where
  "opt_json x = (case x of None \<Rightarrow> PNone | Some i \<Rightarrow> PInt i)"

definition accept_item_json :: "accept_item \<Rightarrow> pyval" where
  "accept_item_json item =
     PDict [(''accept_cargo'', accept_cargo item), (''accept_cargo_type'', accept_cargo_type item),
            (''stock_num'', opt_json (stock_num item)), (''cons_num'', opt_json (cons_num item))]"

definition produce_item_json :: "produce_item \<Rightarrow> pyval" where
  "produce_item_json item =
     PDict [(''produce_cargo'', produce_cargo item), (''produce_cargo_type'', produce_cargo_type item),
            (''prod_num'', opt_json (prod_num item)), (''demand_num'', opt_json (demand_num item)),
            (''bias_num'', opt_json (bias_num item))]"

definition demand_item_json :: "demand_item \<Rightarrow> pyval" where
  "demand_item_json item =
     PDict [(''produce_cargo'', dc_produce_cargo item), (''accepted_by'', PList (map PStr (accepted_by item))),
            (''demand_num'', PInt (dc_demand_num item))]"

definition industry_json :: "industry \<Rightarrow> pydict" where
  "industry_json data =
     row data @
     (case accept_cargo_list data of
        None \<Rightarrow> [] | Some l \<Rightarrow> [(''accept_cargo_list'', PList (map accept_item_json l))]) @
     (case produce_cargo_list data of
        None \<Rightarrow> [] | Some l \<Rightarrow> [(''produce_cargo_list'', PList (map produce_item_json l))]) @
     (case demand_customers data of
        None \<Rightarrow> [] | Some l \<Rightarrow> [(''demand_customers'', PList (map demand_item_json l))])"

section \<open>\<^verbatim>\<open>CreateIndustries\<close>: the PNML files\<close>

definition dq :: string where
  "dq = [CHR 0x22]"

definition tabs :: "nat \<Rightarrow> string" where
  "tabs n = replicate n (CHR 0x09)"

text \<open>An optional number inside an f-string: \<^verbatim>\<open>None\<close> prints as such.\<close>

definition opt_str :: "int option \<Rightarrow> string" where
  "opt_str x = (case x of None \<Rightarrow> ''None'' | Some i \<Rightarrow> int_str i)"

definition industry_type_of :: "industry \<Rightarrow> string" where
  "industry_type_of data =
     (case map_of (row data) ''industry_type'' of None \<Rightarrow> ''industry'' | Some v \<Rightarrow> py_str v)"

text \<open>
  The template of an industry: the one of its type when that file exists, else the
  generic one. \<open>fs\<close> maps the paths of the files that exist to their text.
\<close>

definition pnml_template_file :: "(string \<rightharpoonup> string) \<Rightarrow> industry \<Rightarrow> string" where
  "pnml_template_file fs data =
     (let typed = ''src/templates/'' @ industry_type_of data @ ''_industry_template.pnml''
      in if fs typed = None then ''src/templates/industry_template.pnml'' else typed)"

definition accept_cargo_str :: "accept_item list \<Rightarrow> string" where
  "accept_cargo_str items =
     concat (map (\<lambda>item. tabs 4 @ ''accept_cargo('' @ dq @ py_str (accept_cargo item) @ dq @ ''),'' @ newline)
               items)"

fun produce_cargo_str :: "produce_item list \<Rightarrow> string" where
  "produce_cargo_str [] = []"
| "produce_cargo_str [item] = tabs 4 @ ''produce_cargo('' @ dq @ py_str (produce_cargo item) @ dq @ '',0)''"
| "produce_cargo_str (item # rest) =
     tabs 4 @ ''produce_cargo('' @ dq @ py_str (produce_cargo item) @ dq @ '',0)'' @ '','' @ newline @
     produce_cargo_str rest"

definition cargo_stockpiles_str :: "accept_item list \<Rightarrow> string" where
  "cargo_stockpiles_str items =
     concat (map (\<lambda>item.
        tabs 4 @ ''STORE_PERM (incoming_cargo_waiting('' @ dq @ py_str (accept_cargo item) @ dq @ ''),'' @
        (case stock_num item of None \<Rightarrow> [] | Some n \<Rightarrow> int_str n) @ ''),'' @ newline) items)"

definition execute_consumption_str :: "accept_item list \<Rightarrow> string" where
  "execute_consumption_str items =
     concat (map (\<lambda>item.
        tabs 4 @ py_str (accept_cargo item) @ '': LOAD_PERM('' @
        (case cons_num item of None \<Rightarrow> [] | Some n \<Rightarrow> int_str n) @ '');'' @ newline) items)"

definition cargo_consumption_str :: "string \<Rightarrow> accept_item list \<Rightarrow> string" where
  "cargo_consumption_str industry_type items =
     concat (map (\<lambda>item.
        tabs 4 @ ''STORE_PERM ('' @ industry_type @ ''_'' @ py_str (accept_cargo_type item) @
        ''_cargo_consumption_'' @ opt_str (stock_num item) @ ''(),'' @
        (case cons_num item of None \<Rightarrow> [] | Some n \<Rightarrow> int_str n) @ ''),'' @ newline) items)"

definition execute_production_str :: "produce_item list \<Rightarrow> string" where
  "execute_production_str items =
     concat (map (\<lambda>item.
        tabs 4 @ py_str (produce_cargo item) @ '': LOAD_PERM('' @
        (case prod_num item of None \<Rightarrow> [] | Some n \<Rightarrow> int_str n) @ '');'' @ newline) items)"

definition cargo_production_str :: "string \<Rightarrow> produce_item list \<Rightarrow> string" where
  "cargo_production_str industry_type items =
     concat (map (\<lambda>item.
        tabs 4 @ ''STORE_PERM ('' @ industry_type @ ''_'' @ py_str (produce_cargo_type item) @
        (case prod_num item of
           None \<Rightarrow> ''_cargo_production(),''
         | Some n \<Rightarrow> ''_cargo_production_'' @ int_str n @ ''(),'' @ int_str n) @ ''),'' @ newline) items)"

definition supply_competition_str :: "string \<Rightarrow> string" where
  "supply_competition_str industry_name =
     tabs 4 @ ''STORE_PERM (industry_count('' @ industry_name @ ''),2),''"

fun plus_join :: "string list \<Rightarrow> string" where
  "plus_join [] = []"
| "plus_join [s] = s"
| "plus_join (s # t # ss) = s @ '' + '' @ plus_join (t # ss)"

definition demand_line :: "demand_item \<Rightarrow> string" where
  "demand_line item =
     tabs 4 @ ''STORE_PERM ('' @
     plus_join (map (\<lambda>industry. ''industry_count('' @ industry @ '')'') (accepted_by item)) @
     '','' @ newline @ tabs 7 @ int_str (dc_demand_num item) @ ''),'' @ newline"

fun demand_customers_str :: "demand_item list \<Rightarrow> string" where
  "demand_customers_str [] = []"
| "demand_customers_str (item # rest) =
     (if accepted_by item \<noteq> [] then demand_line item else []) @ demand_customers_str rest"

definition production_bias_str :: "produce_item list \<Rightarrow> string" where
  "production_bias_str items =
     concat (map (\<lambda>item. case bias_num item of
                            None \<Rightarrow> []
                          | Some n \<Rightarrow>
                              tabs 4 @ ''STORE_PERM (transported_last_month_pct('' @ dq @
                              py_str (produce_cargo item) @ dq @ ''),'' @ int_str n @ ''),'' @ newline)
               items)"

text \<open>
  The text of one industry's PNML file, from the template's text. The consumption and
  production blocks read \<^verbatim>\<open>data["industry_type"]\<close> for every item: without that column
  a non-empty list raises \<^verbatim>\<open>KeyError\<close>.
\<close>

definition industry_type_key :: "industry \<Rightarrow> 'a list \<Rightarrow> py_error + string" where
  "industry_type_key data items =
     (case map_of (row data) ''industry_type'' of
        None \<Rightarrow> (if items = [] then Inr [] else Inl KeyError)
      | Some v \<Rightarrow> Inr (py_str v))"

definition pnml_content :: "string \<Rightarrow> string \<Rightarrow> industry \<Rightarrow> py_error + string" where
  "pnml_content template_text industry_name data =
     (let c0 = substitute fmt_scalar template_text (industry_json data);
          c1 = py_replace c0 ''_accept_cargo_list_'' (accept_cargo_str (get_accept_list data));
          c2 = py_replace c1 ''_produce_cargo_list_'' (produce_cargo_str (get_produce_list data));
          c3 = py_replace c2 ''_cargo_stockpiles_'' (cargo_stockpiles_str (get_accept_list data));
          c4 = py_replace c3 ''_execute_consumption_'' (execute_consumption_str (get_accept_list data))
      in case industry_type_key data (get_accept_list data) of
           Inl err \<Rightarrow> Inl err
         | Inr ty_a \<Rightarrow>
             (let c5 = py_replace c4 ''_cargo_consumption_''
                         (cargo_consumption_str ty_a (get_accept_list data));
                  c6 = py_replace c5 ''_execute_production_''
                         (execute_production_str (get_produce_list data))
              in case industry_type_key data (get_produce_list data) of
                   Inl err \<Rightarrow> Inl err
                 | Inr ty_p \<Rightarrow>
                     (let c7 = py_replace c6 ''_cargo_production_''
                                 (cargo_production_str ty_p (get_produce_list data));
                          c8 = py_replace c7 ''_supply_competition_''
                                 (supply_competition_str industry_name);
                          c9 = py_replace c8 ''_demand_customers_''
                                 (demand_customers_str (get_demand_customers data))
                      in Inr (py_replace c9 ''_production_bias_''
                                (production_bias_str (get_produce_list data))))))"

text \<open>
  The fourth loop. The template is opened first: when it is missing nothing is written
  for the industry. The industry's file is opened next, so a rendering that raises
  leaves it empty. In both cases the combined text gets nothing from the industry.
\<close>

definition industry_pnml ::
  "(string \<rightharpoonup> string) \<Rightarrow> string \<Rightarrow> industry \<Rightarrow> (string \<times> string) list \<times> string" where
  "industry_pnml fs industry_name data =
     (let pnml_filepath =
            path_join (path_join ''src/industries'' industry_name) (industry_name @ ''.pnml'')
      in case fs (pnml_template_file fs data) of
           None \<Rightarrow> ([], [])
         | Some template_text \<Rightarrow>
             (case pnml_content template_text industry_name data of
                Inl err \<Rightarrow> ([(pnml_filepath, [])], [])
              | Inr content \<Rightarrow> ([(pnml_filepath, content)], content @ newline @ newline)))"



section \<open>\<^verbatim>\<open>CreateIndustryLNGs\<close>\<close>

text \<open>
  The generator walks \<^verbatim>\<open>os.listdir\<close>: the listing is its input, each folder with the
  record loaded from its JSON file (\<open>None\<close> when the entry is no folder, or has no
  readable JSON file). The order of the listing is the file system's.
  \<^verbatim>\<open>item_name.replace\<close> on a name that is no string raises \<^verbatim>\<open>AttributeError\<close>, which
  nothing catches.
\<close>

fun industry_lngs :: "string \<Rightarrow> (string \<times> pydict option) list \<Rightarrow> py_error + (string \<times> string) list" where
  "industry_lngs template_content_lng [] = Inr []"
| "industry_lngs template_content_lng ((industry_folder, None) # rest) =
     industry_lngs template_content_lng rest"
| "industry_lngs template_content_lng ((industry_folder, Some record) # rest) =
     (case (case map_of record ''industry_item_name'' of
              None \<Rightarrow> Inr ''default_item''
            | Some (PStr s) \<Rightarrow> Inr s
            | Some _ \<Rightarrow> Inl AttributeError) of
        Inl err \<Rightarrow> Inl err
      | Inr item_name \<Rightarrow>
          (case industry_lngs template_content_lng rest of
             Inl err \<Rightarrow> Inl err
           | Inr written \<Rightarrow>
               Inr ((path_join (path_join ''src/industries'' industry_folder)
                       (py_replace item_name '' '' ''_'' @ ''.lng''),
                     substitute fmt_scalar_list_dict template_content_lng record) # written)))"

definition CreateIndustryLNGs ::
  "string \<Rightarrow> (string \<times> pydict option) list \<Rightarrow> py_error + ((string \<times> string) list \<times> string)" where
  "CreateIndustryLNGs template_content_lng listing =
     (case industry_lngs template_content_lng listing of
        Inl err \<Rightarrow> Inl err
      | Inr written \<Rightarrow> Inr (written, py_strip (combine written)))"

section \<open>The help text generators\<close>

text \<open>
  Both help text generators run one loop over the rows of the industries sheet: an
  included industry whose template file is missing is passed over
  (\<^verbatim>\<open>Skipping ...; continue\<close>). The combined file is read back from the files written.
  A row that raises ends the operation before its combined file is written; the result
  is then the error alone.
\<close>

definition help_industry_type :: "pydict \<Rightarrow> string" where
  "help_industry_type r =
     (case map_of r ''industry_type'' of None \<Rightarrow> ''generic'' | Some v \<Rightarrow> py_str v)"

fun help_loop ::
  "(string \<rightharpoonup> string) \<Rightarrow> string \<Rightarrow> string \<Rightarrow> (string \<Rightarrow> string \<Rightarrow> pydict \<Rightarrow> string) \<Rightarrow>
   pydict list \<Rightarrow> py_error + (string \<times> string) list" where
  "help_loop fs template_suffix output_suffix render [] = Inr []"
| "help_loop fs template_suffix output_suffix render (r # rows) =
     (if row_included r then
        (case map_of r ''industry_item_name'' of
           None \<Rightarrow> Inl KeyError
         | Some (PStr industry_name) \<Rightarrow>
             (case help_loop fs template_suffix output_suffix render rows of
                Inl err \<Rightarrow> Inl err
              | Inr written \<Rightarrow>
                  (case fs (''src/templates/'' @ help_industry_type r @ template_suffix) of
                     None \<Rightarrow> Inr written
                   | Some template_content \<Rightarrow>
                       Inr ((path_join (path_join ''src/industries'' industry_name)
                               (industry_name @ output_suffix),
                             render industry_name template_content r) # written)))
         | Some _ \<Rightarrow> Inl TypeError)
      else help_loop fs template_suffix output_suffix render rows)"

definition read_back :: "(string \<times> string) list \<Rightarrow> string \<Rightarrow> string" where
  "read_back written path = (case map_of (rev written) path of None \<Rightarrow> [] | Some content \<Rightarrow> content)"

definition combine_files :: "(string \<times> string) list \<Rightarrow> string" where
  "combine_files written =
     concat (map (\<lambda>(path, content). read_back written path @ newline @ newline) written)"

definition CreateIndustryHelpText ::
  "(string \<rightharpoonup> string) \<Rightarrow> pydict list \<Rightarrow> py_error + ((string \<times> string) list \<times> string)" where
  "CreateIndustryHelpText fs df =
     (case help_loop fs ''_industry_help_template.pnml'' ''_help.pnml''
             (\<lambda>industry_name template_content r. substitute fmt_scalar template_content r) df of
        Inl err \<Rightarrow> Inl err
      | Inr written \<Rightarrow> Inr (written, combine_files written))"

text \<open>
  \<^verbatim>\<open>CreateIndustryHelpTextsLNGs\<close> adds the accepted cargos of the industry's own sheet,
  grouped by cargo type, and rewrites what is left of its placeholders.
\<close>

fun dict_append :: "(string \<times> string list) list \<Rightarrow> string \<Rightarrow> string \<Rightarrow> (string \<times> string list) list" where
  "dict_append [] k x = [(k, [x])]"
| "dict_append ((k', xs) # d) k x =
     (if k' = k then (k', xs @ [x]) # d else (k', xs) # dict_append d k x)"

definition cargo_name_of :: "(string \<rightharpoonup> string) \<Rightarrow> pyval \<Rightarrow> string" where
  "cargo_name_of cargo_label_to_str_cargo_name label =
     (case cargo_label_to_str_cargo_name (py_str label) of
        None \<Rightarrow> ''Cargo Label '' @ [CHR 0x27] @ py_str label @ [CHR 0x27] @ '' not found''
      | Some n \<Rightarrow> n)"

fun group_cargo ::
  "(string \<rightharpoonup> string) \<Rightarrow> pydict list \<Rightarrow> (string \<times> string list) list \<Rightarrow>
   py_error + (string \<times> string list) list" where
  "group_cargo names [] accept_cargo_replacements = Inr accept_cargo_replacements"
| "group_cargo names (cargo_row # rows) accept_cargo_replacements =
     (if pd_notna (dict_get cargo_row ''accept_cargo'') \<and> pd_notna (dict_get cargo_row ''accept_cargo_type'')
      then (case dict_get cargo_row ''accept_cargo_type'' of
              PStr t \<Rightarrow>
                group_cargo names rows
                  (dict_append accept_cargo_replacements (py_lower t)
                     (cargo_name_of names (dict_get cargo_row ''accept_cargo'')))
            | _ \<Rightarrow> Inl AttributeError)
      else group_cargo names rows accept_cargo_replacements)"

definition replace_if_in :: "string \<Rightarrow> string \<Rightarrow> string \<Rightarrow> string" where
  "replace_if_in content ph text = (if py_contains ph content then py_replace content ph text else content)"

definition help_lng_cargo :: "(string \<rightharpoonup> string) \<Rightarrow> pydict list option \<Rightarrow> string \<Rightarrow> string" where
  "help_lng_cargo names df_industry content =
     (case df_industry of
        None \<Rightarrow> content
      | Some cargo_rows \<Rightarrow>
          (case group_cargo names cargo_rows [] of
             Inl err \<Rightarrow> content
           | Inr groups \<Rightarrow>
               foldl (\<lambda>c column. replace_if_in c (''_'' @ column @ ''_cargo_'') ''n/a'')
                 (foldl (\<lambda>c (cargo_type, cargo_names).
                           py_replace c (''_'' @ cargo_type @ ''_cargo_'') (comma_join cargo_names))
                    content groups)
                 [''primary'', ''secondary'', ''support'', ''supply'']))"

definition help_lng_content ::
  "(string \<rightharpoonup> string) \<Rightarrow> sheets \<Rightarrow> string \<Rightarrow> string \<Rightarrow> pydict \<Rightarrow> string" where
  "help_lng_content names all_sheets industry_name template_content r =
     foldl (\<lambda>c column. replace_if_in c (placeholder column) ''N/A'')
       (help_lng_cargo names (map_of all_sheets industry_name)
          (substitute fmt_scalar template_content r))
       (map fst r)"

definition CreateIndustryHelpTextsLNGs ::
  "(string \<rightharpoonup> string) \<Rightarrow> (string \<rightharpoonup> string) \<Rightarrow> sheets \<Rightarrow> pydict list \<Rightarrow>
   py_error + ((string \<times> string) list \<times> string)" where
  "CreateIndustryHelpTextsLNGs fs names all_sheets df_industries =
     (case help_loop fs ''_industry_lang_template.lng'' ''_help.lng''
             (help_lng_content names all_sheets) df_industries of
        Inl err \<Rightarrow> Inl err
      | Inr written \<Rightarrow> Inr (written, combine_files written))"

section \<open>\<^verbatim>\<open>CreateCargoPNMLs\<close> of \<^verbatim>\<open>functions_2.py\<close>\<close>

text \<open>
  This generator reads the cargo dict of \<^verbatim>\<open>lib/cargo.json\<close> (cargo name to record) and
  the template as its lines. It iterates a Python set, \<^verbatim>\<open>active_cargo_folders\<close>; the
  order in which the set yields its elements is an input, \<open>folder_iteration\<close>.
\<close>

fun py_lines_from :: "string \<Rightarrow> string \<Rightarrow> string list" where
  "py_lines_from cur [] = (if cur = [] then [] else [cur])"
| "py_lines_from cur (c # cs) =
     (if c = CHR 0x0A then (cur @ [c]) # py_lines_from [] cs else py_lines_from (cur @ [c]) cs)"

definition py_lines :: "string \<Rightarrow> string list" where
  "py_lines s = py_lines_from [] s"

fun join_lines :: "string list \<Rightarrow> string" where
  "join_lines [] = []"
| "join_lines [s] = s"
| "join_lines (s # t # ss) = s @ newline @ join_lines (t # ss)"

definition cargo_replacement_keys :: "string list" where
  "cargo_replacement_keys =
     [''cargo_icon_x'', ''cargo_icon_y'', ''cargo_ID'', ''cargo_colour_number'',
      ''town_growth_effect'', ''town_growth_multiplier'', ''is_freight'', ''string'',
      ''cargo_label'', ''capacity_multiplier'', ''cargo_weight'', ''cargo_classes'',
      ''penalty_lower_bound'', ''single_penalty_length'', ''price_factor'']"

text \<open>
  One cargo's file: the template with \<^verbatim>\<open>_name_\<close> replaced line by line; then, unless
  a key is missing (the \<^verbatim>\<open>KeyError\<close> is caught and the file stays as it is), the
  fifteen replacements and the removal of the lines that contain \<^verbatim>\<open>none\<close>.
\<close>

definition cargo_pnml_2 :: "string list \<Rightarrow> string \<Rightarrow> pydict \<Rightarrow> string" where
  "cargo_pnml_2 template_content cargo_name cargo_data =
     (let named = concat (map (\<lambda>line. py_replace line ''_name_'' (''_'' @ cargo_name)) template_content)
      in if list_all (\<lambda>k. k \<in> set (map fst cargo_data)) cargo_replacement_keys
         then concat (filter (\<lambda>line. \<not> py_contains ''none'' line)
                (py_lines (foldl (\<lambda>d k. py_replace d (placeholder k) (py_str (dict_get cargo_data k)))
                             named cargo_replacement_keys)))
         else named)"

definition cargo_path_2 :: "string \<Rightarrow> string" where
  "cargo_path_2 cargo_name = path_join (path_join ''./src/cargo'' cargo_name) (cargo_name @ ''.pnml'')"

text \<open>\<^verbatim>\<open>data["include"] == True\<close>, for a record that has the key.\<close>

definition is_active :: "pydict \<Rightarrow> bool" where
  "is_active cargo_data = py_eq (dict_get cargo_data ''include'') (PBool True)"

definition active_cargo_folders :: "(string \<times> pydict) list \<Rightarrow> string set" where
  "active_cargo_folders cargo =
     set (map (\<lambda>(name, cargo_data). py_str (dict_get cargo_data ''folder''))
            (filter (\<lambda>(name, cargo_data). is_active cargo_data) cargo))"

definition CreateCargoPNMLs_2 ::
  "string list \<Rightarrow> string list \<Rightarrow> (string \<times> pydict) list \<Rightarrow>
   py_error + ((string \<times> string) list \<times> string)" where
  "CreateCargoPNMLs_2 folder_iteration template_content cargo =
     (if list_ex (\<lambda>(name, cargo_data). map_of cargo_data ''include'' = None) cargo then Inl KeyError
      else if list_ex (\<lambda>(name, cargo_data). is_active cargo_data \<and> map_of cargo_data ''folder'' = None) cargo
      then Inl KeyError
      else
        (let written = map (\<lambda>(cargo_name, cargo_data).
                              (cargo_path_2 cargo_name, cargo_pnml_2 template_content cargo_name cargo_data))
                         cargo;
             output_content =
               [''// Cargo pnml files''] @
               map (\<lambda>folder. ''#include '' @ dq @ ''src/cargo/'' @ folder @ ''/'' @ folder @ ''.pnml'' @ dq)
                 folder_iteration @
               [[]] @
               map (\<lambda>(cargo_name, cargo_data). read_back written (cargo_path_2 cargo_name))
                 (filter (\<lambda>(name, cargo_data). is_active cargo_data) cargo)
         in Inr (written, join_lines output_content)))"

section \<open>Examples\<close>

text \<open>
  Three industries: A produces X (demand 50) and Y (no demand number) in group G1,
  B accepts X and Y in group G1, C accepts X in group G2.
\<close>

definition ex_industries :: "pydict list" where
  "ex_industries =
     [[(''include'', PStr ''TRUE''), (''industry_item_name'', PStr ''A''), (''industry_pack'', PStr ''G1'')],
      [(''include'', PBool True), (''industry_item_name'', PStr ''B''), (''industry_pack'', PStr ''G1'')],
      [(''include'', PStr ''True''), (''industry_item_name'', PStr ''C''), (''industry_pack'', PStr ''G2'')]]"

definition ex_sheets :: sheets where
  "ex_sheets =
     [(''A'', [[(''produce_cargo'', PStr ''X''), (''prod_num'', PInt 8), (''demand_num'', PFloat (FDec 500 (- 1)))],
               [(''produce_cargo'', PStr ''Y''), (''prod_num'', PInt 8), (''demand_num'', PFloat FNan)]]),
      (''B'', [[(''accept_cargo'', PStr ''X'')], [(''accept_cargo'', PStr ''Y'')]]),
      (''C'', [[(''accept_cargo'', PStr ''X'')]])]"

definition ex_item :: "string \<Rightarrow> accept_item" where
  "ex_item label =
     \<lparr>accept_cargo = PStr label, accept_cargo_type = PNone, stock_num = None, cons_num = None\<rparr>"

definition ex_loaded :: industry_data where
  "ex_loaded =
     [(''A'', \<lparr>row = ex_industries ! 0, accept_cargo_list = Some [],
              produce_cargo_list =
                Some [\<lparr>produce_cargo = PStr ''X'', produce_cargo_type = PNone, prod_num = Some 8,
                        demand_num = Some 50, bias_num = None\<rparr>,
                      \<lparr>produce_cargo = PStr ''Y'', produce_cargo_type = PNone, prod_num = Some 8,
                        demand_num = None, bias_num = None\<rparr>],
              demand_customers = None\<rparr>),
      (''B'', \<lparr>row = ex_industries ! 1, accept_cargo_list = Some [ex_item ''X'', ex_item ''Y''],
              produce_cargo_list = Some [], demand_customers = None\<rparr>),
      (''C'', \<lparr>row = ex_industries ! 2, accept_cargo_list = Some [ex_item ''X''],
              produce_cargo_list = Some [], demand_customers = None\<rparr>)]"

text \<open>
  A listing of the industries folder, and a cargo dict: two active cargos, one that is
  switched off, one whose \<^verbatim>\<open>include\<close> is a string.
\<close>

definition ex_listing :: "(string \<times> pydict option) list" where
  "ex_listing = [(''A'', Some [(''industry_item_name'', PStr ''A'')]), (''notes.txt'', None),
                 (''B'', Some [(''industry_item_name'', PStr ''B'')])]"

definition ex_cargo :: "(string \<times> pydict) list" where
  "ex_cargo = [(''coal'', [(''include'', PBool True), (''folder'', PStr ''coal'')]),
               (''ore'', [(''include'', PBool True), (''folder'', PStr ''ore'')]),
               (''sand'', [(''include'', PBool False), (''folder'', PStr ''sand'')]),
               (''wood'', [(''include'', PStr ''TRUE''), (''folder'', PStr ''wood'')])]"

text \<open>An industry of type \<^verbatim>\<open>primary\<close>, and a template folder without a template of that type.\<close>

definition ex_primary :: pydict where
  "ex_primary = [(''include'', PStr ''TRUE''), (''industry_item_name'', PStr ''A''),
                 (''industry_type'', PStr ''primary'')]"

definition ex_templates :: "string \<rightharpoonup> string" where
  "ex_templates =
     map_of [(''src/templates/industry_template.pnml'', ''item _industry_item_name_ {_demand_customers_}''),
             (''src/templates/generic_industry_help_template.pnml'', ''help _industry_item_name_''),
             (''src/templates/generic_industry_lang_template.lng'', ''lang _industry_item_name_'')]"

definition ex_primary_data :: industry where
  "ex_primary_data =
     \<lparr>row = ex_primary, accept_cargo_list = None, produce_cargo_list = None,
      demand_customers = Some []\<rparr>"

section \<open>Auxiliary definitions for the proofs\<close>

text \<open>The entries depend on the names, rows and accepted cargos only.\<close>

definition base :: "industry_data \<Rightarrow> (string \<times> pydict \<times> accept_item list option) list" where
  "base ids = map (\<lambda>(n, d). (n, row d, accept_cargo_list d)) ids"

definition upd :: "string set \<Rightarrow> industry_data \<Rightarrow> industry_data \<Rightarrow> industry_data" where
  "upd S ids xs =
     map (\<lambda>(n, d). if n \<in> S
                    then (n, d\<lparr>demand_customers := Some (spec_entries ids n d (get_produce_list d))\<rparr>)
                    else (n, d)) xs"

definition sq :: string where
  "sq = [CHR 0x27]"

text \<open>One entry of the listing in \<^verbatim>\<open>CreateIndustryLNGs\<close>: whether it raises, and what it writes.\<close>

definition lng_raises :: "string \<times> pydict option \<Rightarrow> bool" where
  "lng_raises entry =
     (case snd entry of
        None \<Rightarrow> False
      | Some r \<Rightarrow> (case map_of r ''industry_item_name'' of
                     None \<Rightarrow> False | Some (PStr s) \<Rightarrow> False | Some _ \<Rightarrow> True))"

definition lng_written :: "string \<Rightarrow> string \<times> pydict option \<Rightarrow> (string \<times> string) list" where
  "lng_written template_content_lng entry =
     (case snd entry of
        None \<Rightarrow> []
      | Some r \<Rightarrow>
          [(path_join (path_join ''src/industries'' (fst entry))
              (py_replace (case map_of r ''industry_item_name'' of
                             Some (PStr s) \<Rightarrow> s | _ \<Rightarrow> ''default_item'') '' '' ''_'' @ ''.lng''),
            substitute fmt_scalar_list_dict template_content_lng r)])"

section \<open>The resolver computes what the specification says\<close>

lemma scan_accept_eq:
  "scan_accept xs t data other n =
     (if list_ex (\<lambda>a. py_eq (accept_cargo a) t) xs \<and> py_eq (industry_pack data) (industry_pack other)
      then [n] else [])"
  by (induction xs) auto

lemma scan_industries_eq:
  "scan_industries rest name data t acc = acc @ spec_accepted_by rest name data t"
proof (induction rest name data t acc rule: scan_industries.induct)
  case (1 industry_name data target_cargo accepting_industries)
  show ?case by (simp add: spec_accepted_by_def)
next
  case (2 other_industry_name other_data rest industry_name data target_cargo accepting_industries)
  show ?case
    unfolding scan_industries.simps "2.IH"
    by (simp add: spec_accepted_by_def scan_accept_eq accepts_label_def)
qed

lemma demand_loop_eq:
  "demand_loop st name data items dcs = dcs @ spec_entries st name data items"
proof (induction items arbitrary: dcs)
  case Nil
  show ?case by (simp add: spec_entries_def)
next
  case (Cons item items)
  show ?case
    unfolding demand_loop.simps Cons.IH
    by (simp add: spec_entries_def scan_industries_eq split: option.splits)
qed

lemma spec_accepted_by_base:
  "base st = base ids \<Longrightarrow> spec_accepted_by st name I label = spec_accepted_by ids name I label"
proof (induction st arbitrary: ids)
  case Nil
  then show ?case by (simp add: base_def spec_accepted_by_def)
next
  case (Cons a st)
  then obtain b ids' where ids: "ids = b # ids'" by (cases ids) (auto simp: base_def)
  with Cons.prems have hd: "fst a = fst b" "row (snd a) = row (snd b)"
    "accept_cargo_list (snd a) = accept_cargo_list (snd b)" and tl: "base st = base ids'"
    by (auto simp: base_def split: prod.splits)
  have "spec_accepted_by st name I label = spec_accepted_by ids' name I label"
    by (rule Cons.IH [OF tl])
  with hd show ?case unfolding ids
    by (cases a; cases b)
       (simp add: spec_accepted_by_def accepts_label_def get_accept_list_def industry_pack_def)
qed

lemma base_upd: "base (upd S ids xs) = base xs"
  by (induction xs) (auto simp: base_def upd_def)

lemma spec_entries_base:
  "base st = base ids \<Longrightarrow> spec_entries st name I ps = spec_entries ids name I ps"
  by (simp add: spec_entries_def spec_accepted_by_base [of st ids] cong: option.case_cong)

lemma upd_insert_notin:
  "n \<notin> fst ` set xs \<Longrightarrow> upd (insert n S) ids xs = upd S ids xs"
  by (induction xs) (auto simp: upd_def)

lemma upd_all:
  "fst ` set xs \<subseteq> S \<Longrightarrow>
   upd S ids xs =
     map (\<lambda>(n, d). (n, d\<lparr>demand_customers := Some (spec_entries ids n d (get_produce_list d))\<rparr>)) xs"
  by (induction xs) (auto simp: upd_def)

lemma map_of_upd_notin:
  "n \<notin> S \<Longrightarrow> map_of (upd S ids xs) n = map_of xs n"
  by (induction xs) (auto simp: upd_def)

lemma dict_set_upd:
  "distinct (map fst xs) \<Longrightarrow> map_of xs n = Some d \<Longrightarrow> n \<notin> S \<Longrightarrow>
   dict_set (upd S ids xs) n (d\<lparr>demand_customers := Some (spec_entries ids n d (get_produce_list d))\<rparr>)
     = upd (insert n S) ids xs"
proof (induction xs)
  case Nil
  then show ?case by simp
next
  case (Cons a xs)
  obtain k v where a: "a = (k, v)" by (cases a)
  show ?case
  proof (cases "k = n")
    case True
    with Cons.prems a have v: "v = d" by simp
    from Cons.prems a True have "n \<notin> fst ` set xs" by auto
    then have "upd (insert n S) ids xs = upd S ids xs"
      by (rule upd_insert_notin)
    with True v a Cons.prems(3) show ?thesis by (simp add: upd_def)
  next
    case False
    with Cons.prems a have "map_of xs n = Some d" "distinct (map fst xs)" by auto
    from Cons.IH [OF this(2) this(1) Cons.prems(3)] False a show ?thesis
      by (simp add: upd_def)
  qed
qed

lemma resolve_step_upd:
  assumes "distinct (map fst ids)" "map_of ids n = Some d" "n \<notin> S"
  shows "resolve_step (upd S ids ids) n = upd (insert n S) ids ids"
proof -
  have m: "map_of (upd S ids ids) n = Some d"
    using assms by (simp add: map_of_upd_notin)
  have e: "demand_loop (upd S ids ids) n d (get_produce_list d) [] =
           spec_entries ids n d (get_produce_list d)"
    by (simp add: demand_loop_eq spec_entries_base [OF base_upd])
  show ?thesis
    by (simp add: resolve_step_def m e dict_set_upd [OF assms])
qed

lemma foldl_resolve_step:
  "distinct (map fst ids) \<Longrightarrow> distinct ns \<Longrightarrow> set ns \<subseteq> fst ` set ids \<Longrightarrow> S \<inter> set ns = {} \<Longrightarrow>
   foldl resolve_step (upd S ids ids) ns = upd (S \<union> set ns) ids ids"
proof (induction ns arbitrary: S)
  case Nil
  then show ?case by simp
next
  case (Cons n ns)
  from Cons.prems have "n \<in> fst ` set ids" by auto
  then obtain d where d: "map_of ids n = Some d"
    by (metis map_of_eq_None_iff not_Some_eq)
  from Cons.prems have nS: "n \<notin> S" by auto
  have step: "resolve_step (upd S ids ids) n = upd (insert n S) ids ids"
    by (rule resolve_step_upd [OF Cons.prems(1) d nS])
  from Cons.prems have "insert n S \<inter> set ns = {}" "distinct ns" "set ns \<subseteq> fst ` set ids" by auto
  from Cons.IH [OF Cons.prems(1) this(2) this(3) this(1)] step show ?case by simp
qed

lemma resolve_eq_spec:
  assumes "distinct (map fst ids)"
  shows "resolve ids = spec_resolve ids"
proof -
  have "upd {} ids ids = ids" by (induction ids) (auto simp: upd_def)
  then have "resolve ids = foldl resolve_step (upd {} ids ids) (map fst ids)"
    by (simp add: resolve_def)
  also have "\<dots> = upd ({} \<union> set (map fst ids)) ids ids"
    by (rule foldl_resolve_step) (use assms in auto)
  also have "\<dots> = spec_resolve ids"
    by (simp add: upd_all spec_resolve_def)
  finally show ?thesis .
qed

lemma dict_set_keys:
  "map fst (dict_set d k v) = (if k \<in> set (map fst d) then map fst d else map fst d @ [k])"
  by (induction d) (auto simp: rev_image_eqI)

lemma dict_set_distinct: "distinct (map fst d) \<Longrightarrow> distinct (map fst (dict_set d k v))"
  by (simp add: dict_set_keys)

lemma load_industries_distinct:
  "load_industries sh rows st = Inr ids \<Longrightarrow> distinct (map fst st) \<Longrightarrow> distinct (map fst ids)"
proof (induction rows arbitrary: st)
  case Nil
  then show ?case by simp
next
  case (Cons r rows)
  show ?case
  proof (cases "row_included r")
    case False
    with Cons show ?thesis by simp
  next
    case True
    from Cons.prems(1) True obtain st' where
      "load_industries sh rows st' = Inr ids" "distinct (map fst st')"
      using dict_set_distinct [OF Cons.prems(2)]
      by (simp split: option.splits pyval.splits sum.splits prod.splits)
    then show ?thesis by (rule Cons.IH)
  qed
qed

lemma spec_accepted_by_distinct:
  "distinct (map fst ids) \<Longrightarrow> distinct (spec_accepted_by ids name I label)"
  unfolding spec_accepted_by_def by (simp add: distinct_map_filter)

lemma spec_accepted_by_not_self: "name \<notin> set (spec_accepted_by ids name I label)"
  unfolding spec_accepted_by_def by auto

text \<open>
  C1. After the second loop of \<^verbatim>\<open>CreateIndustries\<close> has run over the industries the first
  loop loaded, every industry's \<^verbatim>\<open>demand_customers\<close> holds one entry for each produced
  cargo whose \<^verbatim>\<open>demand_num\<close> is not null, in the order of the produced cargos; the entry
  carries that demand and lists, in the order of the input and without duplicates, the
  names of the other industries of an equal \<^verbatim>\<open>industry_pack\<close> whose accepted cargos
  hold the produced cargo. A produced cargo without demand number gets no entry.
\<close>

theorem resolve_consumers:
  assumes "load_industries industry_sheets df_industries [] = Inr loaded"
  shows "resolve loaded = spec_resolve loaded \<and>
         distinct (spec_accepted_by loaded name I label) \<and>
         name \<notin> set (spec_accepted_by loaded name I label)"
proof -
  have d: "distinct (map fst loaded)"
    using load_industries_distinct [OF assms] by simp
  show ?thesis
    using resolve_eq_spec [OF d] spec_accepted_by_distinct [OF d] spec_accepted_by_not_self
    by simp
qed

theorem resolve_consumers_witness:
  "load_industries ex_sheets ex_industries [] = Inr ex_loaded \<and>
   map (\<lambda>(name, I). (name, demand_customers I)) (resolve ex_loaded) =
     [(''A'', Some [\<lparr>dc_produce_cargo = PStr ''X'', accepted_by = [''B''], dc_demand_num = 50\<rparr>]),
      (''B'', Some []), (''C'', Some [])]"
proof -
  have l: "load_industries ex_sheets ex_industries [] = Inr ex_loaded"
    by code_simp
  have "resolve ex_loaded = spec_resolve ex_loaded"
    using resolve_consumers [OF l] by simp
  moreover have "map (\<lambda>(name, I). (name, demand_customers I)) (spec_resolve ex_loaded) =
     [(''A'', Some [\<lparr>dc_produce_cargo = PStr ''X'', accepted_by = [''B''], dc_demand_num = 50\<rparr>]),
      (''B'', Some []), (''C'', Some [])]"
    by code_simp
  ultimately show ?thesis using l by simp
qed
section \<open>The substitution loop\<close>

lemma substitute_Nil: "substitute fmt t [] = t"
  by (simp add: substitute_def)

lemma substitute_Cons:
  "substitute fmt t ((k, v) # r) =
     substitute fmt (case fmt v of None \<Rightarrow> t | Some text \<Rightarrow> py_replace t (placeholder k) text) r"
  by (simp add: substitute_def)

lemma substitute_append:
  "substitute fmt t (r1 @ r2) = substitute fmt (substitute fmt t r1) r2"
  by (simp add: substitute_def)

lemma substitute_skips:
  "substitute fmt t r = substitute fmt t (filter (\<lambda>(k, v). fmt v \<noteq> None) r)"
proof (induction r arbitrary: t)
  case Nil
  show ?case by simp
next
  case (Cons a r)
  obtain k v where a: "a = (k, v)" by (cases a)
  show ?case
    unfolding a using Cons.IH by (cases "fmt v") (simp_all add: substitute_Cons)
qed

lemma substitute_fmt_scalar_lists:
  "list_all (\<lambda>(k, v). \<not> is_scalar v) r \<Longrightarrow> substitute fmt_scalar t r = t"
  by (induction r arbitrary: t) (auto simp: substitute_Cons substitute_Nil fmt_scalar_def)

lemma py_contains_Nil: "py_contains [] s"
  by (cases s) auto

lemma py_replace_absent:
  "\<not> py_contains old s \<Longrightarrow> py_replace s old new = s"
proof (induction s)
  case Nil
  then show ?case by (cases old) auto
next
  case (Cons c cs)
  from Cons.prems have "old \<noteq> []" using py_contains_Nil by auto
  with Cons show ?case by auto
qed

text \<open>
  C2, as the code has it. The claim fails: the loop of \<^verbatim>\<open>CreateCargoPNMLs\<close> replaces
  \<^verbatim>\<open>_id_\<close> wherever it stands, also inside \<^verbatim>\<open>_id_label_\<close>. With the fields in the
  order \<^verbatim>\<open>id\<close>, \<^verbatim>\<open>id_label\<close> the template \<^verbatim>\<open>ID=_id_, _id_label_\<close> renders to
  \<^verbatim>\<open>ID=5, 5label_\<close>.
\<close>

theorem naive_replacement_corrupts:
  "substitute fmt_formatted ''ID=_id_, _id_label_'' [(''id'', PStr ''5''), (''id_label'', PStr ''crate'')] =
     ''ID=5, 5label_''"
  by code_simp

text \<open>
  C2, amended. Substitution is plain substring replacement, one field after the other
  in the record's order. When the field \<^verbatim>\<open>id_label\<close> comes before the field \<^verbatim>\<open>id\<close>
  and its text does not contain \<^verbatim>\<open>_id_\<close>, the template \<^verbatim>\<open>ID=_id_, _id_label_\<close>
  renders to \<^verbatim>\<open>ID=\<close>, the text of \<^verbatim>\<open>id\<close>, a comma and the text of \<^verbatim>\<open>id_label\<close>.
\<close>

theorem longer_placeholder_first:
  assumes "fmt v1 = Some s1" and "fmt v2 = Some s2" and "\<not> py_contains ''_id_'' s2"
  shows "substitute fmt ''ID=_id_, _id_label_'' [(''id_label'', v2), (''id'', v1)] =
           ''ID='' @ s1 @ '', '' @ s2"
proof -
  have r1: "py_replace ''ID=_id_, _id_label_'' ''_id_label_'' s2 = ''ID=_id_, '' @ s2"
    by simp
  have r2: "py_replace (''ID=_id_, '' @ s2) ''_id_'' s1 = ''ID='' @ s1 @ '', '' @ py_replace s2 ''_id_'' s1"
    by simp
  have "substitute fmt ''ID=_id_, _id_label_'' [(''id_label'', v2), (''id'', v1)] =
        py_replace (py_replace ''ID=_id_, _id_label_'' ''_id_label_'' s2) ''_id_'' s1"
    using assms(1,2) by (simp add: substitute_def placeholder_def del: py_replace.simps)
  also have "\<dots> = py_replace (''ID=_id_, '' @ s2) ''_id_'' s1"
    by (simp only: r1)
  also have "\<dots> = ''ID='' @ s1 @ '', '' @ py_replace s2 ''_id_'' s1"
    by (rule r2)
  also have "\<dots> = ''ID='' @ s1 @ '', '' @ s2"
    by (simp only: py_replace_absent [OF assms(3)])
  finally show ?thesis .
qed

text \<open>The fields of the claim, \<^verbatim>\<open>id_label\<close> first: \<^verbatim>\<open>ID=5, crate\<close>.\<close>

theorem longer_placeholder_first_witness:
  "fmt_formatted (PStr ''5'') = Some ''5'' \<and> fmt_formatted (PStr ''crate'') = Some ''crate'' \<and>
   \<not> py_contains ''_id_'' ''crate'' \<and>
   substitute fmt_formatted ''ID=_id_, _id_label_'' [(''id_label'', PStr ''crate''), (''id'', PStr ''5'')] =
     ''ID=5, crate''"
proof -
  have a: "fmt_formatted (PStr ''5'') = Some ''5''" by code_simp
  have b: "fmt_formatted (PStr ''crate'') = Some ''crate''" by code_simp
  have c: "\<not> py_contains ''_id_'' ''crate''" by code_simp
  show ?thesis using a b c longer_placeholder_first [OF a b c] by simp
qed

text \<open>
  C5, on the code. The demand number of a produced cargo is tested against the type of
  \<^verbatim>\<open>prod_num\<close>. A sheet without a \<^verbatim>\<open>prod_num\<close> column loses its numeric \<^verbatim>\<open>demand_num\<close>
  (first row), and so does a row whose \<^verbatim>\<open>prod_num\<close> is text (second row); with a
  numeric \<^verbatim>\<open>prod_num\<close> the same \<^verbatim>\<open>demand_num\<close> is kept (third row), and a
  \<^verbatim>\<open>demand_num\<close> that is text is converted (fourth row).
\<close>

theorem demand_num_tests_prod_num:
  "make_produce_item [(''produce_cargo'', PStr ''X''), (''demand_num'', PInt 50)] =
     Inr \<lparr>produce_cargo = PStr ''X'', produce_cargo_type = PNone, prod_num = None,
          demand_num = None, bias_num = None\<rparr> \<and>
   make_produce_item [(''produce_cargo'', PStr ''X''), (''prod_num'', PStr ''unlimited''), (''demand_num'', PInt 50)] =
     Inr \<lparr>produce_cargo = PStr ''X'', produce_cargo_type = PNone, prod_num = None,
          demand_num = None, bias_num = None\<rparr> \<and>
   make_produce_item [(''produce_cargo'', PStr ''X''), (''prod_num'', PInt 8), (''demand_num'', PInt 50)] =
     Inr \<lparr>produce_cargo = PStr ''X'', produce_cargo_type = PNone, prod_num = Some 8,
          demand_num = Some 50, bias_num = None\<rparr> \<and>
   make_produce_item [(''produce_cargo'', PStr ''X''), (''prod_num'', PInt 8), (''demand_num'', PStr ''7'')] =
     Inr \<lparr>produce_cargo = PStr ''X'', produce_cargo_type = PNone, prod_num = Some 8,
          demand_num = Some 7, bias_num = None\<rparr>"
  by code_simp




text \<open>
  C8, as the code has it. The claim fails in \<^verbatim>\<open>CreateIndustryLNGs\<close>, whose loop also
  substitutes lists and dicts: the accepted cargos of industry C of the example are
  printed as a Python literal.
\<close>

theorem industry_lng_prints_lists:
  "CreateIndustryLNGs ''accepts _accept_cargo_list_''
     [(''C'', Some (industry_json (snd (ex_loaded ! 2))))] =
   Inr ([(''src/industries/C/C.lng'',
          ''accepts [{'' @ sq @ ''accept_cargo'' @ sq @ '': '' @ sq @ ''X'' @ sq @ '', '' @
          sq @ ''accept_cargo_type'' @ sq @ '': None, '' @ sq @ ''stock_num'' @ sq @ '': None, '' @
          sq @ ''cons_num'' @ sq @ '': None}]'')],
        ''accepts [{'' @ sq @ ''accept_cargo'' @ sq @ '': '' @ sq @ ''X'' @ sq @ '', '' @
        sq @ ''accept_cargo_type'' @ sq @ '': None, '' @ sq @ ''stock_num'' @ sq @ '': None, '' @
        sq @ ''cons_num'' @ sq @ '': None}]'')"
  by code_simp

text \<open>
  C8, amended. The scalar loop of \<^verbatim>\<open>CreateIndustries\<close> (and of the two help text
  generators, which run the same loop) substitutes the fields that hold a string, a
  number or a boolean and no other: over the whole dict of an industry, derived lists
  included, it does what it does over the scalar cells of the row.
\<close>

theorem scalar_path_skips_lists:
  "substitute fmt_scalar template_text (industry_json data) =
     substitute fmt_scalar template_text (filter (\<lambda>(key, v). is_scalar v) (row data))"
proof -
  have "substitute fmt_scalar template_text (industry_json data) =
        substitute fmt_scalar template_text (row data)"
    unfolding industry_json_def substitute_append
    by (simp add: substitute_fmt_scalar_lists split: option.splits)
  also have "\<dots> = substitute fmt_scalar template_text (filter (\<lambda>(key, v). is_scalar v) (row data))"
  proof -
    have "(\<lambda>(k, v). fmt_scalar v \<noteq> None) = (\<lambda>(key :: string, v). is_scalar v)"
      by (simp add: fun_eq_iff fmt_scalar_def)
    then show ?thesis
      using substitute_skips [of fmt_scalar template_text "row data"] by simp
  qed
  finally show ?thesis .
qed

section \<open>The demand block of the industry PNML\<close>

lemma demand_customers_str_filter:
  "demand_customers_str items = concat (map demand_line (filter (\<lambda>item. accepted_by item \<noteq> []) items))"
  by (induction items) auto

lemma demand_customers_str_append:
  "demand_customers_str (xs @ ys) = demand_customers_str xs @ demand_customers_str ys"
  by (induction xs) auto

text \<open>
  C10. The text that replaces \<^verbatim>\<open>_demand_customers_\<close> in the industry PNML is made of
  one \<^verbatim>\<open>STORE_PERM\<close> line for each entry whose \<^verbatim>\<open>accepted_by\<close> is not empty, in order;
  an entry with a demand number and no accepting industry adds nothing to it.
\<close>

theorem demand_block_only_accepted:
  "demand_customers_str items =
     concat (map demand_line (filter (\<lambda>item. accepted_by item \<noteq> []) items)) \<and>
   demand_customers_str
     (xs @ [\<lparr>dc_produce_cargo = c, accepted_by = [], dc_demand_num = n\<rparr>] @ ys) =
     demand_customers_str (xs @ ys)"
  by (simp add: demand_customers_str_filter)
section \<open>Number formatting in the cargo generators\<close>






section \<open>The include filter\<close>







section \<open>Templates that are missing\<close>

text \<open>
  C9, as the code has it. The claim fails in both help text generators: without the
  template of the industry's type they pass the industry over and write nothing for
  it, whatever other template exists.
\<close>

theorem help_text_skips_without_template:
  "ex_templates ''src/templates/primary_industry_help_template.pnml'' = None \<and>
   CreateIndustryHelpText ex_templates [ex_primary] = Inr ([], []) \<and>
   CreateIndustryHelpTextsLNGs ex_templates Map.empty [] [ex_primary] = Inr ([], [])"
  by code_simp

text \<open>
  C9, amended. \<^verbatim>\<open>CreateIndustries\<close> falls back: when the template of the industry's
  type is missing and the generic \<^verbatim>\<open>industry_template.pnml\<close> exists, the industry's
  file is rendered from the generic template. The help text generators have no
  fallback: an included industry whose template is missing is skipped.
\<close>

theorem template_fallback:
  assumes "fs (''src/templates/'' @ industry_type_of data @ ''_industry_template.pnml'') = None"
      and "fs ''src/templates/industry_template.pnml'' = Some template_text"
      and "pnml_content template_text industry_name data = Inr content"
      and "row_included r"
      and "map_of r ''industry_item_name'' = Some (PStr helped)"
      and "fs (''src/templates/'' @ help_industry_type r @ template_suffix) = None"
  shows "industry_pnml fs industry_name data =
           ([(path_join (path_join ''src/industries'' industry_name) (industry_name @ ''.pnml''), content)],
            content @ newline @ newline) \<and>
         help_loop fs template_suffix output_suffix render (r # rows) =
           help_loop fs template_suffix output_suffix render rows"
proof -
  have "pnml_template_file fs data = ''src/templates/industry_template.pnml''"
    using assms(1) by (simp add: pnml_template_file_def Let_def)
  then have "industry_pnml fs industry_name data =
           ([(path_join (path_join ''src/industries'' industry_name) (industry_name @ ''.pnml''), content)],
            content @ newline @ newline)"
    using assms(2,3) by (simp add: industry_pnml_def Let_def)
  moreover have "help_loop fs template_suffix output_suffix render (r # rows) =
           help_loop fs template_suffix output_suffix render rows"
    using assms(4,5,6) by (simp split: sum.splits)
  ultimately show ?thesis by simp
qed

text \<open>
  The industry A of type \<^verbatim>\<open>primary\<close>, where only the generic templates exist.
\<close>

theorem template_fallback_witness:
  "ex_templates (''src/templates/'' @ industry_type_of ex_primary_data @ ''_industry_template.pnml'') = None \<and>
   ex_templates ''src/templates/industry_template.pnml'' =
     Some ''item _industry_item_name_ {_demand_customers_}'' \<and>
   pnml_content ''item _industry_item_name_ {_demand_customers_}'' ''A'' ex_primary_data = Inr ''item A {}'' \<and>
   row_included ex_primary \<and>
   map_of ex_primary ''industry_item_name'' = Some (PStr ''A'') \<and>
   ex_templates (''src/templates/'' @ help_industry_type ex_primary @ ''_industry_help_template.pnml'') = None \<and>
   industry_pnml ex_templates ''A'' ex_primary_data =
     ([(''src/industries/A/A.pnml'', ''item A {}'')], ''item A {}'' @ newline @ newline) \<and>
   help_loop ex_templates ''_industry_help_template.pnml'' ''_help.pnml''
       (\<lambda>industry_name template_content r. substitute fmt_scalar template_content r) [ex_primary] =
     Inr []"
proof -
  have a: "ex_templates (''src/templates/'' @ industry_type_of ex_primary_data @ ''_industry_template.pnml'') = None"
    by code_simp
  have b: "ex_templates ''src/templates/industry_template.pnml'' =
     Some ''item _industry_item_name_ {_demand_customers_}''"
    by code_simp
  have c: "pnml_content ''item _industry_item_name_ {_demand_customers_}'' ''A'' ex_primary_data = Inr ''item A {}''"
    by code_simp
  have d: "row_included ex_primary" by code_simp
  have e: "map_of ex_primary ''industry_item_name'' = Some (PStr ''A'')" by code_simp
  have f: "ex_templates (''src/templates/'' @ help_industry_type ex_primary @ ''_industry_help_template.pnml'') = None"
    by code_simp
  have p: "path_join (path_join ''src/industries'' ''A'') (''A'' @ ''.pnml'') = ''src/industries/A/A.pnml''"
    by code_simp
  show ?thesis
    using a b c d e f
      template_fallback [OF a b c d e f, of "''_help.pnml''"
        "\<lambda>industry_name template_content r. substitute fmt_scalar template_content r" "[]"]
    by (simp only: p help_loop.simps)
qed

section \<open>The order of iteration\<close>

lemma lng_None: "lng_raises (folder, None) = False" "lng_written t (folder, None) = []"
  by (simp_all add: lng_raises_def lng_written_def)

lemma lng_Some_raises:
  "lng_raises (folder, Some r) =
     (case map_of r ''industry_item_name'' of None \<Rightarrow> False | Some (PStr s) \<Rightarrow> False | Some _ \<Rightarrow> True)"
  by (simp add: lng_raises_def)

lemma lng_Some_written:
  "lng_written t (folder, Some r) =
     [(path_join (path_join ''src/industries'' folder)
         (py_replace (case map_of r ''industry_item_name'' of
                        Some (PStr s) \<Rightarrow> s | _ \<Rightarrow> ''default_item'') '' '' ''_'' @ ''.lng''),
       substitute fmt_scalar_list_dict t r)]"
  by (simp add: lng_written_def)

lemma industry_lngs_eq:
  "industry_lngs t l =
     (if list_ex lng_raises l then Inl AttributeError else Inr (concat (map (lng_written t) l)))"
proof (induction t l rule: industry_lngs.induct)
  case (1 t)
  show ?case by simp
next
  case (2 t folder rest)
  then show ?case by (simp add: lng_None)
next
  case (3 t folder r rest)
  then show ?case
    by (simp add: lng_Some_raises lng_Some_written split: option.splits pyval.splits)
qed

lemma mset_concat_map:
  "mset xs = mset ys \<Longrightarrow> mset (concat (map f xs)) = mset (concat (map f ys))"
proof -
  assume a: "mset xs = mset ys"
  have "mset (concat (map f xs)) = sum_mset (image_mset (\<lambda>x. mset (f x)) (mset xs))" for xs
    by (induction xs) auto
  with a show ?thesis by simp
qed

lemma list_ex_mset: "mset xs = mset ys \<Longrightarrow> list_ex P xs = list_ex P ys"
  by (auto simp: list_ex_iff dest: mset_eq_setD)

text \<open>
  C6, as the code has it. The claim fails: the combined file of
  \<^verbatim>\<open>CreateIndustryLNGs\<close> follows the order of the directory listing, and the
  \<^verbatim>\<open>#include\<close> lines of \<^verbatim>\<open>functions_2.py\<close> follow the order in which a Python set
  yields its elements. The same folders listed in another order, and the same set
  iterated in another order, give another combined file.
\<close>

theorem combined_follows_iteration_order:
  "CreateIndustryLNGs ''STR_NAME__industry_item_name_'' ex_listing =
     Inr ([(''src/industries/A/A.lng'', ''STR_NAME_A''), (''src/industries/B/B.lng'', ''STR_NAME_B'')],
          ''STR_NAME_A'' @ newline @ newline @ ''STR_NAME_B'') \<and>
   CreateIndustryLNGs ''STR_NAME__industry_item_name_'' (rev ex_listing) =
     Inr ([(''src/industries/B/B.lng'', ''STR_NAME_B''), (''src/industries/A/A.lng'', ''STR_NAME_A'')],
          ''STR_NAME_B'' @ newline @ newline @ ''STR_NAME_A'') \<and>
   set [''coal'', ''ore''] = active_cargo_folders ex_cargo \<and>
   map_sum id snd (CreateCargoPNMLs_2 [''coal'', ''ore''] [''cargo _name_''] ex_cargo) \<noteq>
   map_sum id snd (CreateCargoPNMLs_2 [''ore'', ''coal''] [''cargo _name_''] ex_cargo)"
  by code_simp

text \<open>
  C6, amended. The per-record files do not depend on these orders: whatever the order
  of the listing, \<^verbatim>\<open>CreateIndustryLNGs\<close> returns and writes the same files with the
  same texts, and whatever the iteration order of the set, \<^verbatim>\<open>CreateCargoPNMLs\<close> of
  \<^verbatim>\<open>functions_2.py\<close> writes the same files.
\<close>

theorem files_independent_of_order:
  assumes "mset listing' = mset listing"
      and "CreateIndustryLNGs t listing = Inr (written, combined)"
  shows "(\<exists>written' combined'. CreateIndustryLNGs t listing' = Inr (written', combined') \<and>
            mset written' = mset written) \<and>
         map_sum id fst (CreateCargoPNMLs_2 order1 template_content cargo) =
         map_sum id fst (CreateCargoPNMLs_2 order2 template_content cargo)"
proof -
  from assms(2) have ok: "\<not> list_ex lng_raises listing"
    and w: "written = concat (map (lng_written t) listing)"
    by (auto simp: CreateIndustryLNGs_def industry_lngs_eq split: if_splits)
  from ok have ok': "\<not> list_ex lng_raises listing'"
    using list_ex_mset [OF assms(1)] by simp
  have "mset (concat (map (lng_written t) listing')) = mset written"
    unfolding w by (rule mset_concat_map [OF assms(1)])
  with ok' have "\<exists>written' combined'. CreateIndustryLNGs t listing' = Inr (written', combined') \<and>
            mset written' = mset written"
    by (simp add: CreateIndustryLNGs_def industry_lngs_eq)
  moreover have "map_sum id fst (CreateCargoPNMLs_2 order1 template_content cargo) =
         map_sum id fst (CreateCargoPNMLs_2 order2 template_content cargo)"
    by (simp add: CreateCargoPNMLs_2_def Let_def)
  ultimately show ?thesis by simp
qed

text \<open>
  The listing of the example and its reverse.
\<close>

theorem files_independent_of_order_witness:
  "mset (rev ex_listing) = mset ex_listing \<and>
   CreateIndustryLNGs ''STR_NAME__industry_item_name_'' ex_listing =
     Inr ([(''src/industries/A/A.lng'', ''STR_NAME_A''), (''src/industries/B/B.lng'', ''STR_NAME_B'')],
          ''STR_NAME_A'' @ newline @ newline @ ''STR_NAME_B'') \<and>
   (\<exists>written' combined'.
      CreateIndustryLNGs ''STR_NAME__industry_item_name_'' (rev ex_listing) = Inr (written', combined') \<and>
      mset written' =
        mset [(''src/industries/A/A.lng'', ''STR_NAME_A''), (''src/industries/B/B.lng'', ''STR_NAME_B'')])"
proof -
  have a: "mset (rev ex_listing) = mset ex_listing" by simp
  have b: "CreateIndustryLNGs ''STR_NAME__industry_item_name_'' ex_listing =
     Inr ([(''src/industries/A/A.lng'', ''STR_NAME_A''), (''src/industries/B/B.lng'', ''STR_NAME_B'')],
          ''STR_NAME_A'' @ newline @ newline @ ''STR_NAME_B'')"
    by code_simp
  show ?thesis
    using a b files_independent_of_order [OF a b] by blast
qed

end
